theory Spec2Isabelle
  imports Complex_Main "HOL-Library.Word" "HOL-Library.Multiset"
begin

section \<open>JavaScript values and string primitives used by app.js\<close>

text \<open>
  A JavaScript string is modelled as a \<^typ>\<open>string\<close>, one \<^typ>\<open>char\<close> per code unit
  (every literal of app.js is in the Latin-1 range). A value of a JSON request body is a
  \<open>jsval\<close>; \<open>JUndefined\<close> is an absent field, \<open>JComposite\<close> an array or an object.
\<close>

datatype jsval = JUndefined | JNull | JBool bool | JNum rat | JStr string | JComposite

text \<open>ToBoolean, as used by \<open>!x\<close>, \<open>x && y\<close> and \<open>x || y\<close>.\<close>

fun truthy :: "jsval \<Rightarrow> bool" where
  "truthy JUndefined = False"
| "truthy JNull = False"
| "truthy (JBool b) = b"
| "truthy (JNum r) = (r \<noteq> 0)"
| "truthy (JStr s) = (s \<noteq> [])"
| "truthy JComposite = True"

text \<open>\<open>s.startsWith(p)\<close>.\<close>

definition startsWith :: "string \<Rightarrow> string \<Rightarrow> bool" where
  "startsWith s p = (take (length p) s = p)"

text \<open>
  \<open>s.split(sep)\<close>: the pieces between the occurrences of \<open>sep\<close>, found from the left,
  each search resuming after the previous occurrence. \<open>cur\<close> holds the current piece,
  reversed. An empty separator splits into single code units.
\<close>

function split_from :: "string \<Rightarrow> string \<Rightarrow> string \<Rightarrow> string list" where
  "split_from sep cur [] = [rev cur]"
| "split_from sep cur (c # cs) =
     (if sep \<noteq> [] \<and> startsWith (c # cs) sep
      then rev cur # split_from sep [] (drop (length sep) (c # cs))
      else split_from sep (c # cur) cs)"
  by pat_completeness auto
termination
  by (relation "measure (\<lambda>(sep, cur, s). length s)") auto

definition split :: "string \<Rightarrow> string \<Rightarrow> string list" where
  "split s sep = (if sep = [] then map (\<lambda>c. [c]) s else split_from sep [] s)"

text \<open>\<open>xs[i]\<close> on an array: \<open>undefined\<close> (here \<open>None\<close>) out of range.\<close>

definition at_index :: "'a list \<Rightarrow> nat \<Rightarrow> 'a option" where
  "at_index xs i = (if i < length xs then Some (xs ! i) else None)"

text \<open>\<open>s.substring(a, b)\<close> for \<open>a \<le> b\<close>; both ends are clamped to the length.\<close>

definition substring :: "string \<Rightarrow> nat \<Rightarrow> nat \<Rightarrow> string" where
  "substring s a b = take (b - a) (drop a s)"

subsection \<open>Numbers: decimal rendering and parseInt\<close>

text \<open>
  The numbers app.js computes with are integers (\<open>Date.now()\<close>, a product id) or NaN.
  \<open>Num n\<close> is the Number with the integer value \<open>n\<close>. JavaScript represents an integer
  exactly up to \<open>2 ^ 53\<close> in absolute value and rounds a larger one to the nearest
  double; that rounding is not part of this model, which is exact for the clock and for
  ids in that range.
\<close>

datatype jsnum = NaN | Num int

definition digit_char :: "nat \<Rightarrow> char" where
  "digit_char n = ''0123456789'' ! n"

function digits10 :: "nat \<Rightarrow> string" where
  "digits10 n = (if n < 10 then [digit_char n] else digits10 (n div 10) @ [digit_char (n mod 10)])"
  by pat_completeness auto
termination
  by (relation "measure id") auto

declare digits10.simps [simp del]

text \<open>\<open>String(x)\<close>, the conversion a template literal \<open>${x}\<close> applies to a number.\<close>

fun number_to_string :: "jsnum \<Rightarrow> string" where
  "number_to_string NaN = ''NaN''"
| "number_to_string (Num n) = (if n < 0 then ''-'' @ digits10 (nat (- n)) else digits10 (nat n))"

text \<open>White space that parseInt skips, among the code units below 256.\<close>

definition is_js_space :: "char \<Rightarrow> bool" where
  "is_js_space c = (of_char c \<in> {9, 10, 11, 12, 13, 32, 160 :: nat})"

definition digit_value :: "nat \<Rightarrow> char \<Rightarrow> nat option" where
  "digit_value radix c =
     (let n = (of_char c :: nat);
          v = (if 48 \<le> n \<and> n \<le> 57 then Some (n - 48)
               else if 97 \<le> n \<and> n \<le> 122 then Some (n - 87)
               else if 65 \<le> n \<and> n \<le> 90 then Some (n - 55)
               else None)
      in case v of None \<Rightarrow> None | Some d \<Rightarrow> if d < radix then Some d else None)"

definition is_digit_of :: "nat \<Rightarrow> char \<Rightarrow> bool" where
  "is_digit_of radix c = (digit_value radix c \<noteq> None)"

definition radix_value :: "nat \<Rightarrow> string \<Rightarrow> nat" where
  "radix_value radix z = foldl (\<lambda>acc c. acc * radix + the (digit_value radix c)) 0 z"

text \<open>
  \<open>parseInt(s)\<close> with no radix argument: skip leading white space, take one optional sign,
  switch to radix 16 after a \<open>0x\<close> or \<open>0X\<close> prefix, read the longest run of digits;
  NaN when that run is empty.
\<close>

definition parseInt :: "string \<Rightarrow> jsnum" where
  "parseInt inputString =
     (let S0 = dropWhile is_js_space inputString;
          sign = (if S0 \<noteq> [] \<and> hd S0 = CHR ''-'' then - 1 else 1 :: int);
          S1 = (if S0 \<noteq> [] \<and> (hd S0 = CHR ''+'' \<or> hd S0 = CHR ''-'') then tl S0 else S0);
          hex = (startsWith S1 ''0x'' \<or> startsWith S1 ''0X'');
          R = (if hex then 16 else 10 :: nat);
          S2 = (if hex then drop 2 S1 else S1);
          Z = takeWhile (is_digit_of R) S2
      in if Z = [] then NaN else Num (sign * int (radix_value R Z)))"

subsection \<open>Base64, as Buffer.from(s, 'base64') and buf.toString('base64')\<close>

type_synonym byte = "8 word"

definition base64_chars :: string where
  "base64_chars = ''ABCDEFGHIJKLMNOPQRSTUVWXYZabcdefghijklmnopqrstuvwxyz0123456789+/''"

definition base64_char :: "nat \<Rightarrow> char" where
  "base64_char i = base64_chars ! i"

text \<open>
  The decoder's table: the standard alphabet and the URL-safe \<open>-\<close> and \<open>_\<close>; every other
  code unit is not a base64 character.
\<close>

definition unbase64 :: "char \<Rightarrow> nat option" where
  "unbase64 c =
     (let n = (of_char c :: nat)
      in if 65 \<le> n \<and> n \<le> 90 then Some (n - 65)
         else if 97 \<le> n \<and> n \<le> 122 then Some (n - 71)
         else if 48 \<le> n \<and> n \<le> 57 then Some (n + 4)
         else if c = CHR ''+'' \<or> c = CHR ''-'' then Some 62
         else if c = CHR ''/'' \<or> c = CHR ''_'' then Some 63
         else None)"

text \<open>Four sextets give three bytes; a rest of three gives two, of two gives one.\<close>

fun decode_sextets :: "nat list \<Rightarrow> byte list" where
  "decode_sextets (a # b # c # d # rest) =
     [of_nat (a * 4 + b div 16), of_nat ((b mod 16) * 16 + c div 4), of_nat ((c mod 4) * 64 + d)]
       @ decode_sextets rest"
| "decode_sextets [a, b, c] = [of_nat (a * 4 + b div 16), of_nat ((b mod 16) * 16 + c div 4)]"
| "decode_sextets [a, b] = [of_nat (a * 4 + b div 16)]"
| "decode_sextets _ = []"

text \<open>
  The decoder is forgiving: it stops at the first \<open>=\<close>, skips every code unit that is
  not a base64 character, and never fails.
\<close>

definition base64_decode :: "string \<Rightarrow> byte list" where
  "base64_decode s =
     decode_sextets (List.map_filter unbase64 (takeWhile (\<lambda>c. c \<noteq> CHR ''='') s))"

fun sextets_of :: "byte list \<Rightarrow> nat list" where
  "sextets_of (a # b # c # rest) =
     [unat a div 4, (unat a mod 4) * 16 + unat b div 16, (unat b mod 16) * 4 + unat c div 64,
      unat c mod 64] @ sextets_of rest"
| "sextets_of [a, b] = [unat a div 4, (unat a mod 4) * 16 + unat b div 16, (unat b mod 16) * 4]"
| "sextets_of [a] = [unat a div 4, (unat a mod 4) * 16]"
| "sextets_of [] = []"

text \<open>The encoder writes the standard alphabet and pads with \<open>=\<close> to a multiple of four.\<close>

definition base64_encode :: "byte list \<Rightarrow> string" where
  "base64_encode bs =
     map base64_char (sextets_of bs) @ replicate ((3 - length bs mod 3) mod 3) (CHR ''='')"

section \<open>The payload decoder and the upload helper (uploadBase64ToStorage)\<close>

datatype js_error =
    Error string   \<comment> \<open>\<open>throw new Error(msg)\<close>\<close>
  | TypeError      \<comment> \<open>calling \<open>startsWith\<close> on a value that has no such method\<close>
  | Rejected       \<comment> \<open>a rejected promise of the blob SDK\<close>

definition msg_formato_invalido :: string where
  "msg_formato_invalido = ''Formato de Base64 inv'' @ [CHR 0xE1] @ ''lido.''"

definition msg_malformado :: string where
  "msg_malformado = ''Base64 malformado.''"

text \<open>
  Lines 19 to 29: the two shape checks, then the declared type, the body and the decoded
  buffer. \<open>mimeType\<close> is \<open>None\<close> where \<open>parts[0].split(':')[1]\<close> is \<open>undefined\<close>.
\<close>

definition decode_dataUrl :: "jsval \<Rightarrow> js_error + (string option \<times> string \<times> byte list)" where
  "decode_dataUrl dataUrl =
     (if \<not> truthy dataUrl then Inl (Error msg_formato_invalido)
      else case dataUrl of
        JStr s \<Rightarrow>
          if \<not> startsWith s ''data:'' then Inl (Error msg_formato_invalido)
          else
            let parts = split s '';base64,'' in
            if length parts \<noteq> 2 then Inl (Error msg_malformado)
            else
              let mimeType = at_index (split (parts ! 0) '':'') 1;
                  base64Data = parts ! 1;
                  fileBuffer = base64_decode base64Data
              in Inr (mimeType, base64Data, fileBuffer)
      | _ \<Rightarrow> Inl TypeError)"

text \<open>
  What reading a property of the object literal \<open>extensaoMapeada\<close> yields: one of its four
  own entries, or a member that every object literal inherits from \<open>Object.prototype\<close>
  (its methods, and the accessor \<open>__proto__\<close>); \<open>None\<close> is \<open>undefined\<close>.
\<close>

datatype property = Own string | InheritedFunction string | InheritedObject

definition object_prototype_methods :: "(string \<times> string) list" where
  "object_prototype_methods =
     [(''constructor'', ''Object''),
      (''hasOwnProperty'', ''hasOwnProperty''),
      (''isPrototypeOf'', ''isPrototypeOf''),
      (''propertyIsEnumerable'', ''propertyIsEnumerable''),
      (''toLocaleString'', ''toLocaleString''),
      (''toString'', ''toString''),
      (''valueOf'', ''valueOf''),
      (''__defineGetter__'', ''__defineGetter__''),
      (''__defineSetter__'', ''__defineSetter__''),
      (''__lookupGetter__'', ''__lookupGetter__''),
      (''__lookupSetter__'', ''__lookupSetter__'')]"

definition extensaoMapeada :: "string \<Rightarrow> property option" where
  "extensaoMapeada k =
     (if k = ''image/png'' then Some (Own ''png'')
      else if k = ''image/jpeg'' then Some (Own ''jpg'')
      else if k = ''application/pdf'' then Some (Own ''pdf'')
      else if k = ''image/svg+xml'' then Some (Own ''svg'')
      else if k = ''__proto__'' then Some InheritedObject
      else map_option InheritedFunction (map_of object_prototype_methods k))"

text \<open>The string a template literal makes of such a value.\<close>

fun property_to_string :: "property \<Rightarrow> string" where
  "property_to_string (Own s) = s"
| "property_to_string (InheritedFunction f) = ''function '' @ f @ ''() { [native code] }''"
| "property_to_string InheritedObject = ''[object Object]''"

fun property_truthy :: "property \<Rightarrow> bool" where
  "property_truthy (Own s) = (s \<noteq> [])"
| "property_truthy _ = True"

text \<open>
  Line 38, \<open>extensaoMapeada[mimeType] || 'bin'\<close>, as the text it contributes to the file
  name. An \<open>undefined\<close> mimeType is the property key \<open>undefined\<close>.
\<close>

definition extensao :: "string option \<Rightarrow> string" where
  "extensao mimeType =
     (let key = (case mimeType of None \<Rightarrow> ''undefined'' | Some m \<Rightarrow> m)
      in case extensaoMapeada key of
           None \<Rightarrow> ''bin''
         | Some p \<Rightarrow> if property_truthy p then property_to_string p else ''bin'')"

text \<open>
  Line 41. \<open>now\<close> is the value of \<open>Date.now()\<close> and \<open>random36\<close> the text of
  \<open>Math.random().toString(36)\<close>, both taken as parameters.
\<close>

definition token :: "string \<Rightarrow> string" where
  "token random36 = substring random36 2 9"

definition NomeArquivo :: "int \<Rightarrow> string \<Rightarrow> string \<Rightarrow> string" where
  "NomeArquivo now random36 ext =
     number_to_string (Num now) @ ''-'' @ token random36 @ ''.'' @ ext"

subsection \<open>The collaborators\<close>

datatype query =
    ListProdutos              \<comment> \<open>SELECT ... FROM produtos ORDER BY id DESC\<close>
  | InsertProduto "jsval list" \<comment> \<open>INSERT INTO produtos ... RETURNING ...\<close>
  | SelectProduto jsnum       \<comment> \<open>SELECT imagem_url, pdf_url FROM produtos WHERE id = $1\<close>
  | DeleteProduto jsnum       \<comment> \<open>DELETE FROM produtos WHERE id = $1\<close>

text \<open>
  The blob store is any service with a state of its own, \<open>'b\<close>: \<open>blob_put\<close> answers
  with the public URL or rejects (\<open>None\<close>), \<open>blob_del\<close> succeeds or rejects with an
  Error (\<open>False\<close>). \<open>db_throws\<close> says which queries the database connection fails, and
  \<open>pg_text\<close> is the text the database driver stores for a value that is not a string.
\<close>

record 'b env =
  blob_put :: "'b \<Rightarrow> string \<Rightarrow> byte list \<Rightarrow> string option \<Rightarrow> string option \<times> 'b"
  blob_del :: "'b \<Rightarrow> string \<Rightarrow> bool \<times> 'b"
  db_throws :: "query \<Rightarrow> bool"
  pg_text :: "jsval \<Rightarrow> string"

text \<open>Everything a handler does to the outside, in order.\<close>

datatype effect =
    Put string "byte list" "string option"
  | Del string
  | Query query
  | ConsoleError string
  | ConsoleWarn string

text \<open>Lines 18 to 51.\<close>

definition uploadBase64ToStorage ::
  "'b env \<Rightarrow> int \<Rightarrow> string \<Rightarrow> 'b \<Rightarrow> jsval \<Rightarrow> (js_error + string) \<times> 'b \<times> effect list" where
  "uploadBase64ToStorage env now random36 b dataUrl =
     (case decode_dataUrl dataUrl of
        Inl e \<Rightarrow> (Inl e, b, [])
      | Inr (mimeType, base64Data, fileBuffer) \<Rightarrow>
          (let nomeArquivo = NomeArquivo now random36 (extensao mimeType);
               resultado = blob_put env b nomeArquivo fileBuffer mimeType
           in (case fst resultado of
                 None \<Rightarrow> (Inl Rejected, snd resultado, [Put nomeArquivo fileBuffer mimeType])
               | Some url \<Rightarrow> (Inr url, snd resultado, [Put nomeArquivo fileBuffer mimeType]))))"

section \<open>The repository and the three handlers\<close>

text \<open>
  Modelled from the spec: the table \<open>produtos\<close> behind \<open>db.query\<close> (the connection module
  conexao.js and the table's declaration are not part of the source). A row has an
  integer id assigned by the repository and four text columns, each of which may be
  null (\<open>None\<close>). The ids are those of an integer key column, which lie in the range
  where a Number is exact.
\<close>

record row =
  col_id :: int
  col_nome :: "string option"
  col_imagem_url :: "string option"
  col_pdf_url :: "string option"
  col_youtube_link :: "string option"

record 'b world =
  produtos :: "row list"
  next_id :: int
  blob :: 'b

text \<open>The object both the list and the create handler build from a row.\<close>

record produto =
  out_id :: int
  out_name :: "string option"
  out_image :: "string option"
  out_pdfDataUrl :: "string option"
  out_youtubeLink :: "string option"

datatype body =
    ErrorBody string
  | MessageBody string
  | ProdutoBody produto
  | ProdutosBody "produto list"

datatype response = Response nat body

definition formata :: "row \<Rightarrow> produto" where
  "formata resultado =
     \<lparr>out_id = col_id resultado,
      out_name = col_nome resultado,
      out_image = col_imagem_url resultado,
      out_pdfDataUrl = col_pdf_url resultado,
      out_youtubeLink = col_youtube_link resultado\<rparr>"

text \<open>\<open>ORDER BY id DESC\<close>.\<close>

definition order_by_id_desc :: "row list \<Rightarrow> row list" where
  "order_by_id_desc rs = sort_key (\<lambda>r. - col_id r) rs"

text \<open>
  Modelled from the spec: \<open>WHERE id = $1\<close> on the missing repository. A number selects the
  rows with that id. The handler passes NaN on as it is; a database that rejects it
  fails the query (\<open>db_throws\<close>), and one that accepts it finds no row, since no id
  is NaN.
\<close>

fun where_id :: "jsnum \<Rightarrow> row \<Rightarrow> bool" where
  "where_id NaN r = False"
| "where_id (Num n) r = (col_id r = n)"

definition select_by_id :: "jsnum \<Rightarrow> row list \<Rightarrow> row list" where
  "select_by_id i rs = filter (where_id i) rs"

definition delete_by_id :: "jsnum \<Rightarrow> row list \<Rightarrow> row list" where
  "delete_by_id i rs = filter (\<lambda>r. \<not> where_id i r) rs"

text \<open>The text stored in a column for a query parameter.\<close>

definition column_text :: "'b env \<Rightarrow> jsval \<Rightarrow> string option" where
  "column_text env v =
     (case v of JStr s \<Rightarrow> Some s | JNull \<Rightarrow> None | JUndefined \<Rightarrow> None | _ \<Rightarrow> Some (pg_text env v))"

subsection \<open>GET /produtos (lines 55 to 74)\<close>

definition msg_erro_consulta :: string where
  "msg_erro_consulta = ''Erro interno ao consultar o cat'' @ [CHR 0xE1] @ ''logo.''"

definition get_produtos :: "'b env \<Rightarrow> 'b world \<Rightarrow> response \<times> 'b world \<times> effect list" where
  "get_produtos env w =
     (if db_throws env ListProdutos
      then (Response 500 (ErrorBody msg_erro_consulta), w,
            [Query ListProdutos, ConsoleError ''Erro ao consultar o banco de dados:''])
      else (Response 200 (ProdutosBody (map formata (order_by_id_desc (produtos w)))), w,
            [Query ListProdutos]))"

subsection \<open>POST /produtos (lines 77 to 117)\<close>

definition msg_campos_obrigatorios :: string where
  "msg_campos_obrigatorios =
     ''Todos os campos (nome, imagem, pdf, link) s'' @ [CHR 0xE3] @ ''o obrigat''
       @ [CHR 0xF3] @ ''rios.''"

definition msg_erro_cadastro :: string where
  "msg_erro_cadastro =
     ''Erro ao cadastrar produto. Verifique o formato dos arquivos e a configura''
       @ [CHR 0xE7, CHR 0xE3] @ ''o do Vercel Blob.''"

definition falha_cadastro :: "'b world \<Rightarrow> 'b \<Rightarrow> effect list \<Rightarrow> response \<times> 'b world \<times> effect list" where
  "falha_cadastro w b fx =
     (Response 500 (ErrorBody msg_erro_cadastro), w\<lparr>blob := b\<rparr>,
      fx @ [ConsoleError ''Erro no cadastro ou upload:''])"

text \<open>
  The two uploads read the clock and the random generator once each: \<open>t1, r1\<close> for the
  image and \<open>t2, r2\<close> for the document.
\<close>

definition post_produtos ::
  "'b env \<Rightarrow> int \<times> string \<Rightarrow> int \<times> string \<Rightarrow> 'b world \<Rightarrow> jsval \<Rightarrow> jsval \<Rightarrow> jsval \<Rightarrow> jsval
     \<Rightarrow> response \<times> 'b world \<times> effect list" where
  "post_produtos env tr1 tr2 w nome imagem pdfDataUrl youtubeLink =
     (if \<not> truthy nome \<or> \<not> truthy imagem \<or> \<not> truthy pdfDataUrl \<or> \<not> truthy youtubeLink
      then (Response 400 (ErrorBody msg_campos_obrigatorios), w, [])
      else
        (case uploadBase64ToStorage env (fst tr1) (snd tr1) (blob w) imagem of
           (Inl e, b1, fx1) \<Rightarrow> falha_cadastro w b1 fx1
         | (Inr finalImageUrl, b1, fx1) \<Rightarrow>
             (case uploadBase64ToStorage env (fst tr2) (snd tr2) b1 pdfDataUrl of
                (Inl e, b2, fx2) \<Rightarrow> falha_cadastro w b2 (fx1 @ fx2)
              | (Inr finalPdfUrl, b2, fx2) \<Rightarrow>
                  (let values = [nome, JStr finalImageUrl, JStr finalPdfUrl, youtubeLink];
                       q = InsertProduto values
                   in if db_throws env q then falha_cadastro w b2 (fx1 @ fx2 @ [Query q])
                      else
                        (let novoProduto =
                               \<lparr>col_id = next_id w,
                                col_nome = column_text env nome,
                                col_imagem_url = Some finalImageUrl,
                                col_pdf_url = Some finalPdfUrl,
                                col_youtube_link = column_text env youtubeLink\<rparr>
                         in (Response 201 (ProdutoBody (formata novoProduto)),
                             w\<lparr>produtos := produtos w @ [novoProduto],
                               next_id := next_id w + 1,
                               blob := b2\<rparr>,
                             fx1 @ fx2 @ [Query q]))))))"

subsection \<open>DELETE /produtos/:id (lines 120 to 158)\<close>

definition msg_nao_encontrado :: string where
  "msg_nao_encontrado = ''Produto n'' @ [CHR 0xE3] @ ''o encontrado.''"

definition msg_erro_exclusao :: string where
  "msg_erro_exclusao = ''Erro interno ao excluir produto.''"

definition log_erro_exclusao :: string where
  "log_erro_exclusao = ''Erro na exclus'' @ [CHR 0xE3] @ ''o do produto:''"

definition msg_excluido :: "jsnum \<Rightarrow> string" where
  "msg_excluido id_produto =
     ''Produto '' @ number_to_string id_produto @ '' exclu'' @ [CHR 0xED] @ ''do com sucesso.''"

text \<open>Line 140: the stored URLs that are neither null nor empty and start with \<open>http\<close>.\<close>

definition urlsToDelete :: "row \<Rightarrow> string list" where
  "urlsToDelete r =
     List.map_filter
       (\<lambda>url. case url of None \<Rightarrow> None
              | Some u \<Rightarrow> if u \<noteq> [] \<and> startsWith u ''http'' then Some u else None)
       [col_imagem_url r, col_pdf_url r]"

text \<open>Lines 142 to 150: one attempt per URL; a rejection is logged and the loop goes on.\<close>

fun del_all :: "'b env \<Rightarrow> 'b \<Rightarrow> string list \<Rightarrow> 'b \<times> effect list" where
  "del_all env b [] = (b, [])"
| "del_all env b (url # urls) =
     (let r = blob_del env b url;
          rest = del_all env (snd r) urls
      in (fst rest, (if fst r then [Del url] else [Del url, ConsoleWarn url]) @ snd rest))"

definition delete_produto :: "'b env \<Rightarrow> 'b world \<Rightarrow> string \<Rightarrow> response \<times> 'b world \<times> effect list" where
  "delete_produto env w id_param =
     (let id_produto = parseInt id_param;
          selectQuery = SelectProduto id_produto
      in if db_throws env selectQuery
         then (Response 500 (ErrorBody msg_erro_exclusao), w,
               [Query selectQuery, ConsoleError log_erro_exclusao])
         else
           (case select_by_id id_produto (produtos w) of
              [] \<Rightarrow> (Response 404 (ErrorBody msg_nao_encontrado), w, [Query selectQuery])
            | r # _ \<Rightarrow>
                (let deleteQuery = DeleteProduto id_produto
                 in if db_throws env deleteQuery
                    then (Response 500 (ErrorBody msg_erro_exclusao), w,
                          [Query selectQuery, Query deleteQuery, ConsoleError log_erro_exclusao])
                    else
                      (let w1 = w\<lparr>produtos := delete_by_id id_produto (produtos w)\<rparr>;
                           cleanup = del_all env (blob w) (urlsToDelete r)
                       in (Response 200 (MessageBody (msg_excluido id_produto)),
                           w1\<lparr>blob := fst cleanup\<rparr>,
                           [Query selectQuery, Query deleteQuery] @ snd cleanup)))))"

section \<open>Notions used to state the properties\<close>

text \<open>
  The number of positions of \<open>s\<close> at which \<open>sep\<close> occurs: the spec's count of
  delimiters, independent of how \<open>split\<close> scans.
\<close>

fun occurrences :: "string \<Rightarrow> string \<Rightarrow> nat" where
  "occurrences sep [] = 0"
| "occurrences sep (c # cs) = (if startsWith (c # cs) sep then 1 else 0) + occurrences sep cs"

text \<open>The spec's InvalidFormat: either of the two errors of the shape checks.\<close>

definition InvalidFormat :: "js_error \<Rightarrow> bool" where
  "InvalidFormat e = (e = Error msg_formato_invalido \<or> e = Error msg_malformado)"


definition is_Query :: "effect \<Rightarrow> bool" where
  "is_Query e = (case e of Query q \<Rightarrow> True | _ \<Rightarrow> False)"

definition is_Put :: "effect \<Rightarrow> bool" where
  "is_Put e = (case e of Put n buf ct \<Rightarrow> True | _ \<Rightarrow> False)"

text \<open>
  Sample collaborators for concrete runs. The blob store keeps the list of its object
  URLs; \<open>sample_env put_ok del_ok\<close> accepts or rejects every upload and every deletion.
\<close>

definition sample_env :: "bool \<Rightarrow> bool \<Rightarrow> string list env" where
  "sample_env put_ok del_ok =
     \<lparr>blob_put = (\<lambda>b name buf ct.
          if put_ok then (Some (''https://blob.example/'' @ name), (''https://blob.example/'' @ name) # b)
          else (None, b)),
      blob_del = (\<lambda>b url. if del_ok then (True, removeAll url b) else (False, b)),
      db_throws = (\<lambda>q. False),
      pg_text = (\<lambda>v. ''?'')\<rparr>"


definition sample_row :: "int \<Rightarrow> row" where
  "sample_row n =
     \<lparr>col_id = n,
      col_nome = Some ''Widget'',
      col_imagem_url = Some ''https://blob.example/a.png'',
      col_pdf_url = Some ''https://blob.example/b.pdf'',
      col_youtube_link = Some ''https://youtu.be/x''\<rparr>"

definition sample_world :: "string list world" where
  "sample_world =
     \<lparr>produtos = [sample_row 12, sample_row 16, sample_row 0],
      next_id = 17,
      blob = [''https://blob.example/a.png'', ''https://blob.example/b.pdf'']\<rparr>"

section \<open>Base64: decoding an encoded buffer gives the buffer back\<close>

lemma sextet_join_first:
  "(a::nat) < 256 \<Longrightarrow> b < 256 \<Longrightarrow> a div 4 * 4 + (a mod 4 * 16 + b div 16) div 16 = a"
  by simp

lemma sextet_join_second:
  "(a::nat) < 256 \<Longrightarrow> b < 256 \<Longrightarrow> c < 256 \<Longrightarrow>
     (a mod 4 * 16 + b div 16) mod 16 * 16 + (b mod 16 * 4 + c div 64) div 4 = b"
proof -
  assume "a < 256" "b < 256" "c < 256"
  then have "b div 16 < 16" "c div 64 < 4" by simp_all
  then have "(a mod 4 * 16 + b div 16) mod 16 = b div 16"
    and "(b mod 16 * 4 + c div 64) div 4 = b mod 16"
    by simp_all
  then show ?thesis by simp
qed

lemma sextet_join_third:
  "(c::nat) < 256 \<Longrightarrow> (b mod 16 * 4 + c div 64) mod 4 * 64 + c mod 64 = c"
proof -
  assume "c < 256"
  then have "c div 64 < 4" by simp
  then have "(b mod 16 * 4 + c div 64) mod 4 = c div 64" by simp
  then show ?thesis by simp
qed

lemma sextet_bound_first: "(a::nat) < 256 \<Longrightarrow> a div 4 < 64"
  by simp

lemma sextet_bound_second:
  assumes "(a::nat) < 256" and "b < 256"
  shows "a mod 4 * 16 + b div 16 < 64"
proof -
  have "b div 16 < 16" using assms by simp
  moreover have "a mod 4 < 4" by simp
  ultimately show ?thesis by linarith
qed

lemma sextet_bound_third:
  assumes "(c::nat) < 256"
  shows "b mod 16 * 4 + c div 64 < 64"
proof -
  have "c div 64 < 4" using assms by simp
  moreover have "b mod 16 < 16" by simp
  ultimately show ?thesis by linarith
qed

lemma sextet_bound_pad: "(b::nat) mod 16 * 4 < 64 \<and> (a::nat) mod 4 * 16 < 64"
  by simp

lemma unat_byte_less: "unat (a::byte) < 256"
  using unsigned_less [of a, where 'a = nat] by simp

lemma unbase64_base64_char_all:
  "\<forall>i \<in> set [0..<64]. unbase64 (base64_char i) = Some i \<and> base64_char i \<noteq> CHR ''=''"
  by (simp add: upt_rec unbase64_def base64_char_def base64_chars_def)

lemma unbase64_base64_char: "i < 64 \<Longrightarrow> unbase64 (base64_char i) = Some i"
  using unbase64_base64_char_all by simp

lemma base64_char_not_pad: "i < 64 \<Longrightarrow> base64_char i \<noteq> CHR ''=''"
  using unbase64_base64_char_all by simp

lemma sextets_of_bound: "\<forall>x \<in> set (sextets_of bs). x < 64"
  by (induction bs rule: sextets_of.induct)
     (simp_all add: sextet_bound_first sextet_bound_second sextet_bound_third sextet_bound_pad
        unat_byte_less)

lemma of_nat_unat_byte: "word_of_nat (unat a) = (a::byte)"
  by simp

lemma byte_first:
  "word_of_nat (unat a div 4 * 4 + (unat a mod 4 * 16 + unat (b::byte) div 16) div 16) = (a::byte)"
  by (simp only: sextet_join_first [OF unat_byte_less unat_byte_less] of_nat_unat_byte)

lemma byte_second:
  "word_of_nat ((unat (a::byte) mod 4 * 16 + unat b div 16) mod 16 * 16
      + (unat b mod 16 * 4 + unat (c::byte) div 64) div 4) = (b::byte)"
  by (simp only: sextet_join_second [OF unat_byte_less unat_byte_less unat_byte_less] of_nat_unat_byte)

lemma byte_third:
  "word_of_nat ((unat (b::byte) mod 16 * 4 + unat c div 64) mod 4 * 64 + unat c mod 64) = (c::byte)"
  by (simp only: sextet_join_third [OF unat_byte_less] of_nat_unat_byte)

lemma byte_second_padded:
  "word_of_nat ((unat (a::byte) mod 4 * 16 + unat b div 16) mod 16 * 16 + (unat b mod 16 * 4) div 4)
     = (b::byte)"
  using byte_second [of a b 0] by simp

lemma byte_first_padded:
  "word_of_nat (unat a div 4 * 4 + (unat a mod 4 * 16) div 16) = (a::byte)"
  using byte_first [of a 0] by simp

lemma decode_sextets_of: "decode_sextets (sextets_of bs) = bs"
proof (induction bs rule: sextets_of.induct)
  case (1 a b c rest)
  then show ?case
    by (simp only: sextets_of.simps decode_sextets.simps append.simps byte_first byte_second byte_third)
next
  case (2 a b)
  show ?case
    by (simp only: sextets_of.simps decode_sextets.simps append.simps byte_first byte_second_padded)
next
  case (3 a)
  show ?case
    by (simp only: sextets_of.simps decode_sextets.simps append.simps byte_first_padded)
next
  case 4
  show ?case by simp
qed

lemma map_filter_unbase64:
  "\<forall>x \<in> set xs. x < 64 \<Longrightarrow> List.map_filter unbase64 (map base64_char xs) = xs"
  by (induction xs) (simp_all add: unbase64_base64_char)

lemma takeWhile_not_pad:
  assumes "\<forall>x \<in> set xs. x < 64"
  shows "takeWhile (\<lambda>c. c \<noteq> CHR ''='') (map base64_char xs @ replicate k (CHR ''=''))
         = map base64_char xs"
proof -
  have no_pad: "c \<noteq> CHR ''=''" if "c \<in> set (map base64_char xs)" for c
    using that assms base64_char_not_pad by auto
  have "takeWhile (\<lambda>c. c \<noteq> CHR ''='') (map base64_char xs @ replicate k (CHR ''=''))
      = map base64_char xs @ takeWhile (\<lambda>c. c \<noteq> CHR ''='') (replicate k (CHR ''=''))"
    by (rule takeWhile_append2) (rule no_pad)
  also have "takeWhile (\<lambda>c. c \<noteq> CHR ''='') (replicate k (CHR ''='')) = []"
    by (cases k) simp_all
  finally show ?thesis by simp
qed

lemma base64_decode_encode: "base64_decode (base64_encode bs) = bs"
  by (simp add: base64_decode_def base64_encode_def takeWhile_not_pad map_filter_unbase64
      sextets_of_bound decode_sextets_of)

section \<open>The shape checks of the decoder\<close>

text \<open>
  The delimiter starts with a semicolon and has no other one, so two occurrences never
  overlap: after an occurrence the next one starts at least eight positions later, which
  is how \<open>split\<close> scans.
\<close>

lemma occurrences_delimiter_append:
  "occurrences '';base64,'' ('';base64,'' @ t) = Suc (occurrences '';base64,'' t)"
  by (simp add: startsWith_def)

lemma startsWith_append_drop: "startsWith s p \<Longrightarrow> s = p @ drop (length p) s"
  unfolding startsWith_def by (metis append_take_drop_id)

lemma occurrences_delimiter_skip:
  assumes "startsWith s '';base64,''"
  shows "occurrences '';base64,'' s
         = Suc (occurrences '';base64,'' (drop (length '';base64,'') s))"
proof -
  define t where "t = drop (length '';base64,'') s"
  have s: "s = '';base64,'' @ t"
    unfolding t_def by (rule startsWith_append_drop [OF assms])
  have "occurrences '';base64,'' s = Suc (occurrences '';base64,'' t)"
    by (subst s) (rule occurrences_delimiter_append)
  then show ?thesis unfolding t_def .
qed

lemma length_split_from:
  assumes "sep \<noteq> []"
    and "\<And>t. startsWith t sep \<Longrightarrow> occurrences sep t = Suc (occurrences sep (drop (length sep) t))"
  shows "length (split_from sep cur s) = Suc (occurrences sep s)"
  using assms
proof (induction sep cur s rule: split_from.induct)
  case (1 sep cur)
  then show ?case by simp
next
  case (2 sep cur c cs)
  show ?case
  proof (cases "startsWith (c # cs) sep")
    case True
    then have "length (split_from sep cur (c # cs))
        = Suc (length (split_from sep [] (drop (length sep) (c # cs))))"
      using "2.prems"(1) by simp
    also have "\<dots> = Suc (Suc (occurrences sep (drop (length sep) (c # cs))))"
      using "2.IH"(1) [OF _ "2.prems"] True "2.prems"(1) by simp
    also have "\<dots> = Suc (occurrences sep (c # cs))"
      using "2.prems"(2) [OF True] by simp
    finally show ?thesis .
  next
    case False
    then have "length (split_from sep cur (c # cs)) = length (split_from sep (c # cur) cs)"
      by simp
    also have "\<dots> = Suc (occurrences sep cs)"
      using "2.IH"(2) [OF _ "2.prems"] False by simp
    finally show ?thesis using False by simp
  qed
qed

lemma length_split_delimiter:
  "length (split s '';base64,'') = Suc (occurrences '';base64,'' s)"
proof -
  have "length (split_from '';base64,'' [] s) = Suc (occurrences '';base64,'' s)"
    by (rule length_split_from) (simp, rule occurrences_delimiter_skip)
  then show ?thesis by (simp add: split_def)
qed

lemma decode_dataUrl_string:
  "decode_dataUrl (JStr s) =
     (if \<not> startsWith s ''data:'' then Inl (Error msg_formato_invalido)
      else if occurrences '';base64,'' s \<noteq> 1 then Inl (Error msg_malformado)
      else Inr (at_index (split (split s '';base64,'' ! 0) '':'') 1, split s '';base64,'' ! 1,
                base64_decode (split s '';base64,'' ! 1)))"
proof (cases "s = []")
  case True
  then show ?thesis by (simp add: decode_dataUrl_def startsWith_def)
next
  case False
  then show ?thesis
    by (simp add: decode_dataUrl_def Let_def length_split_delimiter)
qed

section \<open>Properties of the payload decoder and the upload helper\<close>

text \<open>
  Claim C5. For a string payload the two shape checks reject with InvalidFormat exactly
  when the string does not start with \<open>data:\<close> or the delimiter \<open>;base64,\<close> does not occur
  exactly once in it; a string that meets both conditions passes the checks and is
  decoded. A rejected upload of the blob store is a different error.
\<close>

theorem format_check_exact:
  "((\<exists>e. fst (uploadBase64ToStorage env now random36 b (JStr s)) = Inl e \<and> InvalidFormat e)
      \<longleftrightarrow> \<not> startsWith s ''data:'' \<or> occurrences '';base64,'' s \<noteq> 1)
   \<and> (startsWith s ''data:'' \<and> occurrences '';base64,'' s = 1
      \<longrightarrow> (\<exists>payload. decode_dataUrl (JStr s) = Inr payload))"
  by (auto simp: uploadBase64ToStorage_def decode_dataUrl_string InvalidFormat_def Let_def
      split: option.splits)

text \<open>
  C5 on two payloads: a well-formed one passes, one with two delimiters is rejected
  as InvalidFormat.
\<close>

theorem format_check_exact_witness:
  "startsWith ''data:image/png;base64,QQ=='' ''data:''
   \<and> occurrences '';base64,'' ''data:image/png;base64,QQ=='' = 1
   \<and> (\<exists>payload. decode_dataUrl (JStr ''data:image/png;base64,QQ=='') = Inr payload)
   \<and> occurrences '';base64,'' ''data:a;base64,b;base64,c'' \<noteq> 1
   \<and> (\<exists>e. fst (uploadBase64ToStorage (sample_env True True) 0 ''0.5'' []
                (JStr ''data:a;base64,b;base64,c'')) = Inl e \<and> InvalidFormat e)"
proof -
  have a: "startsWith ''data:image/png;base64,QQ=='' ''data:''"
    by (simp add: startsWith_def)
  have b: "occurrences '';base64,'' ''data:image/png;base64,QQ=='' = 1"
    by (simp add: startsWith_def)
  have c: "occurrences '';base64,'' ''data:a;base64,b;base64,c'' \<noteq> 1"
    by (simp add: startsWith_def)
  show ?thesis
    using a b c
      format_check_exact [of "sample_env True True" 0 "''0.5''" "[]" "''data:image/png;base64,QQ==''"]
      format_check_exact [of "sample_env True True" 0 "''0.5''" "[]" "''data:a;base64,b;base64,c''"]
    by blast
qed

text \<open>
  Claim C6, as stated, fails: the body \<open>QQ\<close> carries no padding, the decoder accepts it
  and yields the single byte 65, and encoding that byte gives \<open>QQ==\<close>.
\<close>

theorem roundtrip_not_exact:
  "decode_dataUrl (JStr ''data:image/png;base64,QQ'') = Inr (Some ''image/png'', ''QQ'', [65])
   \<and> base64_encode [65] = ''QQ=='' \<and> base64_encode [65] \<noteq> ''QQ''"
  by code_simp

text \<open>
  Claim C6, amended: for a payload that passes the shape checks, encoding the decoded
  buffer gives the body back exactly when the body is canonical base64, that is, the
  encoder's output for some byte sequence.
\<close>

theorem roundtrip_canonical:
  assumes "decode_dataUrl (JStr s) = Inr (mimeType, base64Data, fileBuffer)"
  shows "(base64_encode fileBuffer = base64Data) = (\<exists>bs. base64Data = base64_encode bs)"
proof -
  have buf: "fileBuffer = base64_decode base64Data"
    using assms by (auto simp: decode_dataUrl_string split: if_splits)
  show ?thesis
  proof
    assume "base64_encode fileBuffer = base64Data"
    then show "\<exists>bs. base64Data = base64_encode bs"
      by (intro exI [of _ fileBuffer]) simp
  next
    assume "\<exists>bs. base64Data = base64_encode bs"
    then obtain bs where "base64Data = base64_encode bs" ..
    then show "base64_encode fileBuffer = base64Data"
      by (simp add: buf base64_decode_encode)
  qed
qed

text \<open>
  C6 on the eight bytes of the PNG signature.
\<close>

theorem roundtrip_canonical_witness:
  "decode_dataUrl (JStr ''data:image/png;base64,iVBORw0KGgo='')
     = Inr (Some ''image/png'', ''iVBORw0KGgo='', [137, 80, 78, 71, 13, 10, 26, 10])
   \<and> base64_encode [137, 80, 78, 71, 13, 10, 26, 10] = ''iVBORw0KGgo=''"
proof -
  have d: "decode_dataUrl (JStr ''data:image/png;base64,iVBORw0KGgo='')
     = Inr (Some ''image/png'', ''iVBORw0KGgo='', [137, 80, 78, 71, 13, 10, 26, 10])"
    by code_simp
  have "''iVBORw0KGgo='' = base64_encode [137, 80, 78, 71, 13, 10, 26, 10]"
    by code_simp
  then have "\<exists>bs. ''iVBORw0KGgo='' = base64_encode bs" ..
  then show ?thesis
    using roundtrip_canonical [OF d] d by simp
qed

text \<open>
  The four entries of the table, and the fallback for a key that the property lookup
  does not find.
\<close>

lemma extensao_table:
  "extensao (Some ''image/png'') = ''png'' \<and> extensao (Some ''image/jpeg'') = ''jpg''
   \<and> extensao (Some ''application/pdf'') = ''pdf'' \<and> extensao (Some ''image/svg+xml'') = ''svg''
   \<and> extensao (Some []) = ''bin'' \<and> extensao None = ''bin''"
  by (simp add: extensao_def extensaoMapeada_def object_prototype_methods_def)

lemma extensao_fallback:
  assumes "extensaoMapeada k = None"
  shows "extensao (Some k) = ''bin''"
  using assms by (simp add: extensao_def)

text \<open>
  Claim C8 does not hold for the declared type \<open>constructor\<close>: it is not in the table, yet
  the lookup finds the member every object inherits, which is truthy, so the fallback
  \<open>bin\<close> is not taken and the text of the function becomes the extension of the object
  key.
\<close>

theorem extensao_inherited_key:
  "decode_dataUrl (JStr ''data:constructor;base64,QQ=='') = Inr (Some ''constructor'', ''QQ=='', [65])
   \<and> extensao (Some ''constructor'') = ''function Object() { [native code] }''
   \<and> extensao (Some ''constructor'') \<noteq> ''bin''
   \<and> snd (snd (uploadBase64ToStorage (sample_env True True) 1700 ''0.4fzyo82mvyr'' []
        (JStr ''data:constructor;base64,QQ=='')))
      = [Put ''1700-4fzyo82.function Object() { [native code] }'' [65] (Some ''constructor'')]"
  by code_simp

text \<open>
  Claim C9, as stated, fails: the draw 0.5 is written \<open>0.i\<close> in base 36, and the token
  taken from it has one character.
\<close>

theorem token_length_counterexample:
  "token ''0.i'' = ''i'' \<and> length (token ''0.i'') \<noteq> 6 \<and> length (token ''0.i'') \<noteq> 7
   \<and> NomeArquivo 1700 ''0.i'' ''png'' = ''1700-i.png''"
  by (simp add: token_def substring_def NomeArquivo_def digits10.simps digit_char_def)

text \<open>
  Claim C9, amended: the object key of every upload that reaches the blob store is the
  clock value in decimal, a hyphen, the token, a dot and the extension, where the token
  is the up to seven characters that follow the first two of the draw's base-36 text;
  its length is the smaller of 7 and the number of characters after those two.
\<close>

theorem object_key_shape:
  assumes "decode_dataUrl dataUrl = Inr (mimeType, base64Data, fileBuffer)"
  shows "\<exists>tok. snd (snd (uploadBase64ToStorage env now random36 b dataUrl))
           = [Put (number_to_string (Num now) @ ''-'' @ tok @ ''.'' @ extensao mimeType)
                fileBuffer mimeType]
         \<and> tok = take 7 (drop 2 random36)
         \<and> length tok = min 7 (length random36 - 2)"
proof -
  have len: "length (take 7 (drop 2 random36)) = min 7 (length random36 - 2)"
    by (simp add: min_def)
  show ?thesis
    using assms len
    by (simp add: uploadBase64ToStorage_def Let_def NomeArquivo_def token_def substring_def
        del: number_to_string.simps length_take split: option.splits)
qed

text \<open>
  C9 on a PNG payload, with a draw of eleven base-36 digits.
\<close>

theorem object_key_shape_witness:
  "decode_dataUrl (JStr ''data:image/png;base64,QQ=='') = Inr (Some ''image/png'', ''QQ=='', [65])
   \<and> snd (snd (uploadBase64ToStorage (sample_env True True) 1700000000000 ''0.4fzyo82mvyr'' []
        (JStr ''data:image/png;base64,QQ=='')))
      = [Put ''1700000000000-4fzyo82.png'' [65] (Some ''image/png'')]"
proof -
  have d: "decode_dataUrl (JStr ''data:image/png;base64,QQ=='') = Inr (Some ''image/png'', ''QQ=='', [65])"
    by code_simp
  have e: "extensao (Some ''image/png'') = ''png''"
    by code_simp
  show ?thesis
    using object_key_shape [OF d, of "sample_env True True" 1700000000000 "''0.4fzyo82mvyr''" "[]"] d
    by (simp add: e digits10.simps digit_char_def)
qed

section \<open>Properties of POST /produtos\<close>

lemma upload_effects:
  "uploadBase64ToStorage env now random36 b dataUrl = (r, b', fx) \<Longrightarrow>
     (\<forall>e \<in> set fx. is_Put e) \<and> length fx \<le> 1"
  by (auto simp: uploadBase64ToStorage_def Let_def is_Put_def split: sum.splits option.splits)

lemma upload_throws_before_put:
  "decode_dataUrl dataUrl = Inl e \<Longrightarrow>
     uploadBase64ToStorage env now random36 b dataUrl = (Inl e, b, [])"
  by (simp add: uploadBase64ToStorage_def)

text \<open>
  Claim C3. When any of the four fields is absent, empty or otherwise falsy, the handler
  answers 400 with the missing-field message, leaves the repository and the blob store
  as they were, and does nothing to the outside: no upload and no query.
\<close>

theorem create_missing_field:
  assumes "\<not> truthy nome \<or> \<not> truthy imagem \<or> \<not> truthy pdfDataUrl \<or> \<not> truthy youtubeLink"
  shows "post_produtos env tr1 tr2 w nome imagem pdfDataUrl youtubeLink
         = (Response 400 (ErrorBody msg_campos_obrigatorios), w, [])"
  using assms by (simp add: post_produtos_def)

text \<open>
  C3 on a request with an empty image and no document.
\<close>

theorem create_missing_field_witness:
  "\<not> truthy (JStr []) \<and> \<not> truthy JUndefined \<and>
   post_produtos (sample_env True True) (0, ''0.abcdefghijk'') (1, ''0.lmnopqrstuv'') sample_world
     (JStr ''Widget'') (JStr []) JUndefined (JStr ''https://youtu.be/x'')
   = (Response 400 (ErrorBody msg_campos_obrigatorios), sample_world, [])"
  using create_missing_field [of "JStr ''Widget''" "JStr []" JUndefined "JStr ''https://youtu.be/x''"
      "sample_env True True" "(0, ''0.abcdefghijk'')" "(1, ''0.lmnopqrstuv'')" sample_world]
  by simp

text \<open>
  Claim C1. When all four fields are present and the upload of the image throws, or the
  upload of the document throws after the image went through, the handler answers 500
  with the upload-error message, the table and its id sequence are unchanged, and no
  query is among the effects. The first failure ends the work: after a failed image
  upload nothing of the document upload happens, and after a failed document upload
  only the log entry follows.
\<close>

theorem create_upload_failure:
  assumes fields: "truthy nome" "truthy imagem" "truthy pdfDataUrl" "truthy youtubeLink"
    and img: "uploadBase64ToStorage env (fst tr1) (snd tr1) (blob w) imagem = (r1, b1, fx1)"
    and doc: "uploadBase64ToStorage env (fst tr2) (snd tr2) b1 pdfDataUrl = (r2, b2, fx2)"
    and throws: "isl r1 \<or> isl r2"
    and run: "post_produtos env tr1 tr2 w nome imagem pdfDataUrl youtubeLink = (res, w', fx)"
  shows "res = Response 500 (ErrorBody msg_erro_cadastro)
       \<and> produtos w' = produtos w \<and> next_id w' = next_id w
       \<and> (\<forall>e \<in> set fx. \<not> is_Query e)
       \<and> (isl r1 \<longrightarrow> fx = fx1 @ [ConsoleError ''Erro no cadastro ou upload:''] \<and> blob w' = b1)
       \<and> (\<not> isl r1 \<longrightarrow> fx = fx1 @ fx2 @ [ConsoleError ''Erro no cadastro ou upload:''] \<and> blob w' = b2)"
proof -
  have p1: "\<forall>e \<in> set fx1. is_Put e" and p2: "\<forall>e \<in> set fx2. is_Put e"
    using upload_effects [OF img] upload_effects [OF doc] by simp_all
  have nq: "\<not> is_Query e" if "is_Put e" for e
    using that by (cases e) (simp_all add: is_Put_def is_Query_def)
  show ?thesis
  proof (cases r1)
    case (Inl e)
    then have "(res, w', fx) = falha_cadastro w b1 fx1"
      using fields img run by (simp add: post_produtos_def)
    then show ?thesis
      using Inl p1 nq by (auto simp: falha_cadastro_def is_Query_def)
  next
    case (Inr url)
    then obtain e where r2: "r2 = Inl e"
      using throws by (cases r2) simp_all
    have "(res, w', fx) = falha_cadastro w b2 (fx1 @ fx2)"
      using fields img doc run Inr r2 by (simp add: post_produtos_def)
    then show ?thesis
      using Inr p1 p2 nq by (auto simp: falha_cadastro_def is_Query_def)
  qed
qed

text \<open>
  C1 on a request whose image is uploaded and whose document is not a data URL.
\<close>

theorem create_upload_failure_witness:
  "truthy (JStr ''Widget'') \<and> truthy (JStr ''data:image/png;base64,iVBORw0KGgo='')
   \<and> truthy (JStr ''JVBERi0='') \<and> truthy (JStr ''https://youtu.be/x'')
   \<and> isl (fst (uploadBase64ToStorage (sample_env True True) 1700000000001 ''0.9x8r1q0k2b''
          (fst (snd (uploadBase64ToStorage (sample_env True True) 1700000000000 ''0.4fzyo82mvyr''
             (blob sample_world) (JStr ''data:image/png;base64,iVBORw0KGgo=''))))
          (JStr ''JVBERi0='')))
   \<and> fst (post_produtos (sample_env True True) (1700000000000, ''0.4fzyo82mvyr'')
          (1700000000001, ''0.9x8r1q0k2b'') sample_world (JStr ''Widget'')
          (JStr ''data:image/png;base64,iVBORw0KGgo='') (JStr ''JVBERi0='') (JStr ''https://youtu.be/x''))
       = Response 500 (ErrorBody msg_erro_cadastro)
   \<and> produtos (fst (snd (post_produtos (sample_env True True) (1700000000000, ''0.4fzyo82mvyr'')
          (1700000000001, ''0.9x8r1q0k2b'') sample_world (JStr ''Widget'')
          (JStr ''data:image/png;base64,iVBORw0KGgo='') (JStr ''JVBERi0='') (JStr ''https://youtu.be/x''))))
       = produtos sample_world
   \<and> filter is_Query (snd (snd (post_produtos (sample_env True True) (1700000000000, ''0.4fzyo82mvyr'')
          (1700000000001, ''0.9x8r1q0k2b'') sample_world (JStr ''Widget'')
          (JStr ''data:image/png;base64,iVBORw0KGgo='') (JStr ''JVBERi0='') (JStr ''https://youtu.be/x''))))
       = []"
proof -
  let ?env = "sample_env True True"
  let ?u1 = "uploadBase64ToStorage ?env 1700000000000 ''0.4fzyo82mvyr'' (blob sample_world)
               (JStr ''data:image/png;base64,iVBORw0KGgo='')"
  let ?u2 = "uploadBase64ToStorage ?env 1700000000001 ''0.9x8r1q0k2b'' (fst (snd ?u1)) (JStr ''JVBERi0='')"
  let ?run = "post_produtos ?env (1700000000000, ''0.4fzyo82mvyr'') (1700000000001, ''0.9x8r1q0k2b'')
                sample_world (JStr ''Widget'') (JStr ''data:image/png;base64,iVBORw0KGgo='')
                (JStr ''JVBERi0='') (JStr ''https://youtu.be/x'')"
  have f: "truthy (JStr ''Widget'')" "truthy (JStr ''data:image/png;base64,iVBORw0KGgo='')"
      "truthy (JStr ''JVBERi0='')" "truthy (JStr ''https://youtu.be/x'')"
    by simp_all
  have img: "uploadBase64ToStorage ?env (fst (1700000000000, ''0.4fzyo82mvyr''))
               (snd (1700000000000, ''0.4fzyo82mvyr'')) (blob sample_world)
               (JStr ''data:image/png;base64,iVBORw0KGgo='')
             = (fst ?u1, fst (snd ?u1), snd (snd ?u1))"
    by simp
  have doc: "uploadBase64ToStorage ?env (fst (1700000000001, ''0.9x8r1q0k2b''))
               (snd (1700000000001, ''0.9x8r1q0k2b'')) (fst (snd ?u1)) (JStr ''JVBERi0='')
             = (fst ?u2, fst (snd ?u2), snd (snd ?u2))"
    by simp
  have "decode_dataUrl (JStr ''JVBERi0='') = Inl (Error msg_formato_invalido)"
    by (simp add: decode_dataUrl_def startsWith_def)
  then have t: "isl (fst ?u2)"
    by (simp add: uploadBase64ToStorage_def)
  then have throws: "isl (fst ?u1) \<or> isl (fst ?u2)" ..
  have run: "?run = (fst ?run, fst (snd ?run), snd (snd ?run))"
    by simp
  show ?thesis
    using f t create_upload_failure [OF f img doc throws run]
    by (simp add: filter_empty_conv)
qed

section \<open>Properties of DELETE /produtos/:id\<close>









lemma is_digit_of_10:
  "is_digit_of 10 c \<longleftrightarrow> 48 \<le> (of_char c :: nat) \<and> (of_char c :: nat) \<le> 57"
  by (auto simp: is_digit_of_def digit_value_def Let_def)

lemma digit_not_space: "is_digit_of 10 c \<Longrightarrow> \<not> is_js_space c"
  by (auto simp: is_digit_of_10 is_js_space_def)

lemma digit_not_sign:
  "is_digit_of 10 c \<Longrightarrow> c \<noteq> CHR ''+'' \<and> c \<noteq> CHR ''-'' \<and> c \<noteq> CHR ''x'' \<and> c \<noteq> CHR ''X''"
  by (auto simp: is_digit_of_10)

lemma sign_not_space: "\<not> is_js_space (CHR ''+'') \<and> \<not> is_js_space (CHR ''-'')"
  by (simp add: is_js_space_def)

lemma takeWhile_digits:
  assumes "\<forall>c \<in> set ds. is_digit_of 10 c" and "rest = [] \<or> \<not> is_digit_of 10 (hd rest)"
  shows "takeWhile (is_digit_of 10) (ds @ rest) = ds"
proof -
  have "takeWhile (is_digit_of 10) rest = []"
    using assms(2) by (cases rest) simp_all
  then show ?thesis
    using assms(1) by (simp add: takeWhile_append2)
qed

lemma no_hex_prefix:
  assumes "ds \<noteq> []" and "\<forall>c \<in> set ds. is_digit_of 10 c"
    and "\<not> (ds = ''0'' \<and> rest \<noteq> [] \<and> (hd rest = CHR ''x'' \<or> hd rest = CHR ''X''))"
  shows "\<not> startsWith (ds @ rest) ''0x'' \<and> \<not> startsWith (ds @ rest) ''0X''"
proof (cases ds)
  case Nil
  then show ?thesis using assms(1) by simp
next
  case (Cons d ds')
  show ?thesis
  proof (cases ds')
    case Nil
    then show ?thesis
      using Cons assms(3) by (cases rest) (auto simp: startsWith_def)
  next
    case (Cons d' ds'')
    then have "is_digit_of 10 d'"
      using \<open>ds = d # ds'\<close> assms(2) by simp
    then show ?thesis
      using Cons \<open>ds = d # ds'\<close> digit_not_sign [of d'] by (auto simp: startsWith_def)
  qed
qed

text \<open>
  Claim C10, as stated, fails: in \<open>0x10\<close> the leading decimal integer is 0, followed by
  characters that are not decimal digits, but parseInt reads a hexadecimal prefix and
  the handler deletes product 16, leaving product 0 in place.
\<close>

theorem parseInt_hex_prefix:
  "parseInt ''0x10'' = Num 16 \<and> parseInt ''0x10'' \<noteq> Num 0
   \<and> fst (delete_produto (sample_env True True) sample_world ''0x10'')
       = Response 200 (MessageBody (''Produto 16 exclu'' @ [CHR 0xED] @ ''do com sucesso.''))
   \<and> produtos (fst (snd (delete_produto (sample_env True True) sample_world ''0x10'')))
       = [sample_row 12, sample_row 0]"
  by code_simp

text \<open>
  Claim C10, amended: for a parameter made of white space, an optional sign, a non-empty
  run of decimal digits \<open>ds\<close> with a value of at most \<open>2 ^ 53\<close>, and a rest that does not
  start with a decimal digit, where the run is not a single \<open>0\<close> followed by \<open>x\<close> or
  \<open>X\<close>, parseInt gives the signed value of \<open>ds\<close>, and the handler does what it does for
  the sign and the digits alone.
\<close>

theorem parseInt_decimal_prefix:
  assumes ws: "\<forall>c \<in> set ws. is_js_space c"
    and sg: "sg = [] \<or> sg = ''+'' \<or> sg = ''-''"
    and ds: "ds \<noteq> []" "\<forall>c \<in> set ds. is_digit_of 10 c"
    and rest: "rest = [] \<or> \<not> is_digit_of 10 (hd rest)"
    and nohex: "\<not> (ds = ''0'' \<and> rest \<noteq> [] \<and> (hd rest = CHR ''x'' \<or> hd rest = CHR ''X''))"
    and safe: "radix_value 10 ds \<le> 2 ^ 53"
  shows "parseInt (ws @ sg @ ds @ rest) = Num ((if sg = ''-'' then - 1 else 1) * int (radix_value 10 ds))
       \<and> delete_produto env w (ws @ sg @ ds @ rest) = delete_produto env w (sg @ ds)"
proof -
  obtain d ds' where dds: "ds = d # ds'"
    using ds(1) by (cases ds) simp_all
  have d: "is_digit_of 10 d"
    using ds(2) dds by simp
  have parsed: "parseInt (sg @ ds @ r) = Num ((if sg = ''-'' then - 1 else 1) * int (radix_value 10 ds))"
    if r: "r = [] \<or> \<not> is_digit_of 10 (hd r)"
      and nh: "\<not> (ds = ''0'' \<and> r \<noteq> [] \<and> (hd r = CHR ''x'' \<or> hd r = CHR ''X''))" for r
  proof -
    have nx: "startsWith (ds @ r) ''0x'' = False" "startsWith (ds @ r) ''0X'' = False"
      using no_hex_prefix [OF ds nh] by simp_all
    have tw: "takeWhile (is_digit_of 10) (ds @ r) = ds"
      by (rule takeWhile_digits [OF ds(2) r])
    have nsp: "dropWhile is_js_space (sg @ ds @ r) = sg @ ds @ r"
      using sg d digit_not_space [OF d] sign_not_space by (auto simp: dds)
    consider "sg = []" | "sg = ''+''" | "sg = ''-''" using sg by blast
    then show ?thesis
    proof cases
      case 1
      have "hd (ds @ r) \<noteq> CHR ''+''" "hd (ds @ r) \<noteq> CHR ''-''"
        using digit_not_sign [OF d] by (simp_all add: dds)
      then show ?thesis
        using nsp 1 ds(1) by (simp add: parseInt_def Let_def nx tw)
    next
      case 2
      then show ?thesis
        using nsp ds(1) by (simp add: parseInt_def Let_def nx tw)
    next
      case 3
      then show ?thesis
        using nsp ds(1) by (simp add: parseInt_def Let_def nx tw)
    qed
  qed
  have skip: "dropWhile is_js_space (ws @ t) = dropWhile is_js_space t" for t
    using ws by (simp add: dropWhile_append2)
  have "parseInt (ws @ sg @ ds @ rest) = parseInt (sg @ ds @ rest)"
    by (simp add: parseInt_def skip)
  then have full: "parseInt (ws @ sg @ ds @ rest) = Num ((if sg = ''-'' then - 1 else 1) * int (radix_value 10 ds))"
    using parsed [OF rest nohex] by simp
  have short: "parseInt (sg @ ds) = Num ((if sg = ''-'' then - 1 else 1) * int (radix_value 10 ds))"
    using parsed [of "[]"] by simp
  show ?thesis
    using full short by (simp add: delete_produto_def)
qed

text \<open>
  C10 on the parameter \<open> -12abc\<close>.
\<close>

theorem parseInt_decimal_prefix_witness:
  "is_js_space (CHR '' '') \<and> is_digit_of 10 (CHR ''1'') \<and> is_digit_of 10 (CHR ''2'')
   \<and> \<not> is_digit_of 10 (hd ''abc'') \<and> radix_value 10 ''12'' = 12
   \<and> parseInt '' -12abc'' = Num (- 12)
   \<and> delete_produto (sample_env True True) sample_world '' -12abc''
       = delete_produto (sample_env True True) sample_world ''-12''"
proof -
  have ws: "\<forall>c \<in> set '' ''. is_js_space c" by code_simp
  have sg: "''-'' = [] \<or> ''-'' = ''+'' \<or> ''-'' = ''-''" by simp
  have ds: "''12'' \<noteq> []" "\<forall>c \<in> set ''12''. is_digit_of 10 c" by code_simp+
  have r: "\<not> is_digit_of 10 (hd ''abc'')" by code_simp
  then have rest: "''abc'' = [] \<or> \<not> is_digit_of 10 (hd ''abc'')" ..
  have nohex: "\<not> (''12'' = ''0'' \<and> ''abc'' \<noteq> [] \<and> (hd ''abc'' = CHR ''x'' \<or> hd ''abc'' = CHR ''X''))"
    by simp
  have v: "radix_value 10 ''12'' = 12" by code_simp
  then have safe: "radix_value 10 ''12'' \<le> 2 ^ 53" by simp
  show ?thesis
    using ws ds r v
      parseInt_decimal_prefix [OF ws sg ds rest nohex safe, of "sample_env True True" sample_world]
    by simp
qed

text \<open>
  A hexadecimal prefix with no hexadecimal digit after it does not parse at all.
\<close>

lemma parseInt_bare_hex_prefix: "parseInt ''0x'' = NaN \<and> parseInt ''0xg'' = NaN"
  by code_simp

section \<open>Properties of GET /produtos\<close>

lemma sorted_desc_order_by_id: "sorted_wrt (\<lambda>a b. col_id a \<ge> col_id b) (order_by_id_desc rs)"
proof -
  have "sorted (map (\<lambda>r. - col_id r) (order_by_id_desc rs))"
    by (simp add: order_by_id_desc_def)
  then show ?thesis
    by (simp add: sorted_map sorted_wrt_iff_nth_less)
qed

text \<open>
  Claim C7. When the query runs, the handler answers 200 with the objects made of the
  rows of the table, all of them and nothing else, as many as the table has rows, by
  descending id, each object carrying the row's columns under the external names:
  \<open>nome\<close> as \<open>name\<close>, \<open>imagem_url\<close> as \<open>image\<close>, \<open>pdf_url\<close> as \<open>pdfDataUrl\<close>,
  \<open>youtube_link\<close> as \<open>youtubeLink\<close>. The table is left as it was.
\<close>

theorem list_returns_rows:
  assumes "\<not> db_throws env ListProdutos"
  shows "\<exists>rs. get_produtos env w = (Response 200 (ProdutosBody (map formata rs)), w, [Query ListProdutos])
       \<and> mset rs = mset (produtos w)
       \<and> length (map formata rs) = length (produtos w)
       \<and> sorted_wrt (\<lambda>a b. out_id a \<ge> out_id b) (map formata rs)
       \<and> (\<forall>r \<in> set rs. out_id (formata r) = col_id r \<and> out_name (formata r) = col_nome r
            \<and> out_image (formata r) = col_imagem_url r \<and> out_pdfDataUrl (formata r) = col_pdf_url r
            \<and> out_youtubeLink (formata r) = col_youtube_link r)"
proof -
  let ?rs = "order_by_id_desc (produtos w)"
  have m: "mset ?rs = mset (produtos w)" by (simp add: order_by_id_desc_def)
  have l: "length ?rs = length (produtos w)" by (simp add: order_by_id_desc_def)
  have s: "sorted_wrt (\<lambda>a b. out_id a \<ge> out_id b) (map formata ?rs)"
    using sorted_desc_order_by_id [of "produtos w"] by (simp add: sorted_wrt_map formata_def)
  show ?thesis
    using assms m l s by (intro exI [of _ ?rs]) (simp add: get_produtos_def formata_def)
qed

text \<open>
  C7 on a table holding the products 12, 16 and 0.
\<close>

theorem list_returns_rows_witness:
  "\<not> db_throws (sample_env True True) ListProdutos
   \<and> get_produtos (sample_env True True) sample_world
       = (Response 200 (ProdutosBody (map formata [sample_row 16, sample_row 12, sample_row 0])),
          sample_world, [Query ListProdutos])"
proof -
  have up: "\<not> db_throws (sample_env True True) ListProdutos"
    by (simp add: sample_env_def)
  obtain rs where rs:
      "get_produtos (sample_env True True) sample_world
         = (Response 200 (ProdutosBody (map formata rs)), sample_world, [Query ListProdutos])"
    using list_returns_rows [OF up, of sample_world] by blast
  have "get_produtos (sample_env True True) sample_world
       = (Response 200 (ProdutosBody (map formata [sample_row 16, sample_row 12, sample_row 0])),
          sample_world, [Query ListProdutos])"
    by (simp add: get_produtos_def up order_by_id_desc_def sample_world_def sample_row_def)
  then show ?thesis
    using up rs by simp
qed

end
